theory Spec2Isabelle
  imports
    Complex_Main
    "HOL-Library.Log_Nat"
    "HOL-Library.Char_ord"
    "HOL-Library.List_Lexorder"
    "HOL-Library.Sublist"
begin

section \<open>The C++ type double\<close>

text \<open>
  Every quantity of the simulator (voltages, currents, charges, durations, timesteps) is
  a C++ \<^verbatim>\<open>double\<close>: an IEEE 754 binary64 number, with arithmetic rounded to nearest,
  ties to even. A double is a NaN, a signed infinity, or a finite number given by its sign
  bit (\<open>True\<close> is negative) and its magnitude, a rational; \<open>Finite True 0\<close> is the
  negative zero. The arithmetic computes the exact rational result and rounds it to a
  magnitude with 53 significant bits (fewer below \<open>2 powi - 1022\<close>, the subnormal range);
  a rounded magnitude of \<open>2 powi 1024\<close> or more overflows to an infinity.
\<close>

datatype double = NaN | Infinity bool | Finite bool rat

text \<open>The exponent of a positive rational: the \<open>e\<close> with \<open>2 powi e \<le> a < 2 powi (e + 1)\<close>.\<close>

definition ilog2 :: "rat \<Rightarrow> int" where
  "ilog2 a = (let (p, q) = quotient_of a; d = bitlen p - bitlen q
              in if 2 powi d \<le> a then d else d - 1)"

definition round_half_even :: "rat \<Rightarrow> int" where
  "round_half_even x =
     (let f = \<lfloor>x\<rfloor>; d = x - of_int f
      in if d < 1 / 2 then f
         else if 1 / 2 < d then f + 1
         else if even f then f else f + 1)"

text \<open>Rounding a magnitude; \<open>None\<close> is overflow.\<close>

definition round_mag :: "rat \<Rightarrow> rat option" where
  "round_mag a =
     (if a = 0 then Some 0
      else let e = max (ilog2 a) (- 1022);
               u = 2 powi (e - 52);
               m = of_int (round_half_even (a / u)) * u
           in if 2 powi 1024 \<le> m then None else Some m)"

definition rnd :: "bool \<Rightarrow> rat \<Rightarrow> double" where
  "rnd s a = (case round_mag a of None \<Rightarrow> Infinity s | Some m \<Rightarrow> Finite s m)"

text \<open>The double nearest to an exact rational, as a literal of the source denotes it.\<close>

definition double_of_rat :: "rat \<Rightarrow> double" where
  "double_of_rat q = rnd (q < 0) \<bar>q\<bar>"

definition fval :: "bool \<Rightarrow> rat \<Rightarrow> rat" where
  "fval s m = (if s then - m else m)"

text \<open>A value of the datatype that is a double: its magnitude is one rounding produces.\<close>

fun is_double :: "double \<Rightarrow> bool" where
  "is_double (Finite s m) = (0 \<le> m \<and> round_mag m = Some m)"
| "is_double _ = True"

fun fneg :: "double \<Rightarrow> double" where
  "fneg NaN = NaN"
| "fneg (Infinity s) = Infinity (\<not> s)"
| "fneg (Finite s m) = Finite (\<not> s) m"

fun fadd :: "double \<Rightarrow> double \<Rightarrow> double" where
  "fadd NaN y = NaN"
| "fadd x NaN = NaN"
| "fadd (Infinity s) (Infinity t) = (if s = t then Infinity s else NaN)"
| "fadd (Infinity s) (Finite t b) = Infinity s"
| "fadd (Finite s a) (Infinity t) = Infinity t"
| "fadd (Finite s a) (Finite t b) =
     (let q = fval s a + fval t b
      in if q = 0 then Finite (s \<and> t) 0 else double_of_rat q)"

definition fsub :: "double \<Rightarrow> double \<Rightarrow> double" where
  "fsub x y = fadd x (fneg y)"

fun fmul :: "double \<Rightarrow> double \<Rightarrow> double" where
  "fmul NaN y = NaN"
| "fmul x NaN = NaN"
| "fmul (Infinity s) (Infinity t) = Infinity (s \<noteq> t)"
| "fmul (Infinity s) (Finite t b) = (if b = 0 then NaN else Infinity (s \<noteq> t))"
| "fmul (Finite s a) (Infinity t) = (if a = 0 then NaN else Infinity (s \<noteq> t))"
| "fmul (Finite s a) (Finite t b) = rnd (s \<noteq> t) (a * b)"

fun fdiv :: "double \<Rightarrow> double \<Rightarrow> double" where
  "fdiv NaN y = NaN"
| "fdiv x NaN = NaN"
| "fdiv (Infinity s) (Infinity t) = NaN"
| "fdiv (Infinity s) (Finite t b) = Infinity (s \<noteq> t)"
| "fdiv (Finite s a) (Infinity t) = Finite (s \<noteq> t) 0"
| "fdiv (Finite s a) (Finite t b) =
     (if b = 0 then (if a = 0 then NaN else Infinity (s \<noteq> t))
      else rnd (s \<noteq> t) (a / b))"

text \<open>The comparisons \<^verbatim>\<open><\<close> and \<^verbatim>\<open><=\<close>: false whenever an operand is a NaN.\<close>

fun flt :: "double \<Rightarrow> double \<Rightarrow> bool" where
  "flt NaN y = False"
| "flt x NaN = False"
| "flt (Infinity s) (Infinity t) = (s \<and> \<not> t)"
| "flt (Infinity s) (Finite t b) = s"
| "flt (Finite s a) (Infinity t) = (\<not> t)"
| "flt (Finite s a) (Finite t b) = (fval s a < fval t b)"

fun fle :: "double \<Rightarrow> double \<Rightarrow> bool" where
  "fle NaN y = False"
| "fle x NaN = False"
| "fle (Infinity s) (Infinity t) = (s \<or> \<not> t)"
| "fle (Infinity s) (Finite t b) = s"
| "fle (Finite s a) (Infinity t) = (\<not> t)"
| "fle (Finite s a) (Finite t b) = (fval s a \<le> fval t b)"

definition zero :: double where
  "zero = Finite False 0"

definition one :: double where
  "one = Finite False 1"


section \<open>Nodes, components and the circuit\<close>

text \<open>
  Nodes and components are objects shared through \<^verbatim>\<open>std::shared_ptr\<close>: the circuit's
  collections, the components' terminal lists and the caller all refer to the same
  objects. The model keeps the objects in a heap and passes references; a null pointer
  is \<open>None\<close> where the source tests for it. Output to \<^verbatim>\<open>std::cout\<close> is not
  modelled.
\<close>

type_synonym node_ref = nat
type_synonym comp_ref = nat

record node =
  node_id :: string
  node_voltage :: double
  connected_components :: "comp_ref list"

datatype component =
    Resistor (id_of : string) (nodes_of : "node_ref list")
      (resistance_of : double) (current_of : double)
  | Capacitor (id_of : string) (nodes_of : "node_ref list")
      (capacitance_of : double) (charge_of : double) (voltage_of : double)
  | Inductor (id_of : string) (nodes_of : "node_ref list")
      (inductance_of : double) (current_of : double) (voltage_of : double)
  | Diode (id_of : string) (nodes_of : "node_ref list")
      (forward_voltage_of : double) (current_of : double)

record heap =
  node_at :: "node_ref \<Rightarrow> node"
  comp_at :: "comp_ref \<Rightarrow> component"

subsection \<open>Node\<close>

definition Node :: "string \<Rightarrow> node" where
  "Node i = \<lparr>node_id = i, node_voltage = zero, connected_components = []\<rparr>"

definition setVoltage :: "heap \<Rightarrow> node_ref \<Rightarrow> double \<Rightarrow> heap" where
  "setVoltage h n v = h\<lparr>node_at := (node_at h)(n := (node_at h n)\<lparr>node_voltage := v\<rparr>)\<rparr>"

definition getVoltage :: "heap \<Rightarrow> node_ref \<Rightarrow> double" where
  "getVoltage h n = node_voltage (node_at h n)"

definition Node_addComponent :: "heap \<Rightarrow> node_ref \<Rightarrow> comp_ref \<Rightarrow> heap" where
  "Node_addComponent h n c =
     h\<lparr>node_at := (node_at h)(n := (node_at h n)
          \<lparr>connected_components := connected_components (node_at h n) @ [c]\<rparr>)\<rparr>"

subsection \<open>Component and its variants\<close>

text \<open>The constructors of the four classes: the state each sets.\<close>

definition new_Resistor :: "double \<Rightarrow> component" where
  "new_Resistor resistance = Resistor [] [] resistance zero"

definition new_Capacitor :: "double \<Rightarrow> component" where
  "new_Capacitor capacitance = Capacitor [] [] capacitance zero zero"

definition new_Inductor :: "double \<Rightarrow> component" where
  "new_Inductor inductance = Inductor [] [] inductance zero zero"

definition new_Diode :: "double \<Rightarrow> component" where
  "new_Diode forward_voltage = Diode [] [] forward_voltage zero"

fun setId :: "string \<Rightarrow> component \<Rightarrow> component" where
  "setId i (Resistor _ ns r c) = Resistor i ns r c"
| "setId i (Capacitor _ ns cap q v) = Capacitor i ns cap q v"
| "setId i (Inductor _ ns l c v) = Inductor i ns l c v"
| "setId i (Diode _ ns fv c) = Diode i ns fv c"

fun getCurrentValue :: "component \<Rightarrow> double" where
  "getCurrentValue (Resistor i ns r c) = c"
| "getCurrentValue (Capacitor i ns cap q v) = v"
| "getCurrentValue (Inductor i ns l c v) = c"
| "getCurrentValue (Diode i ns fv c) = c"

fun getType :: "component \<Rightarrow> string" where
  "getType (Resistor i ns r c) = ''Resistor''"
| "getType (Capacitor i ns cap q v) = ''Capacitor''"
| "getType (Inductor i ns l c v) = ''Inductor''"
| "getType (Diode i ns fv c) = ''Diode''"

fun push_back_node :: "node_ref \<Rightarrow> component \<Rightarrow> component" where
  "push_back_node n (Resistor i ns r c) = Resistor i (ns @ [n]) r c"
| "push_back_node n (Capacitor i ns cap q v) = Capacitor i (ns @ [n]) cap q v"
| "push_back_node n (Inductor i ns l c v) = Inductor i (ns @ [n]) l c v"
| "push_back_node n (Diode i ns fv c) = Diode i (ns @ [n]) fv c"

text \<open>
  \<^verbatim>\<open>connect\<close> is the same in the four classes: the node joins the terminal list, and the
  component is recorded on the node.
\<close>

definition connect :: "heap \<Rightarrow> comp_ref \<Rightarrow> node_ref \<Rightarrow> heap" where
  "connect h this n =
     Node_addComponent (h\<lparr>comp_at := (comp_at h)(this := push_back_node n (comp_at h this))\<rparr>) n this"

text \<open>
  \<^verbatim>\<open>simulate(timestep)\<close> of each class, on the object \<open>this\<close> points to; it reads the
  voltages of the first two terminals from the heap. \<open>ex\<close> is \<^verbatim>\<open>std::exp\<close>, a
  parameter of the model.
\<close>

fun Component_simulate ::
  "(double \<Rightarrow> double) \<Rightarrow> heap \<Rightarrow> double \<Rightarrow> component \<Rightarrow> component" where
  "Component_simulate ex h timestep (Resistor i ns r c) =
     (if 2 \<le> length ns then
        let voltage_diff = fsub (getVoltage h (ns ! 0)) (getVoltage h (ns ! 1))
        in Resistor i ns r (fdiv voltage_diff r)
      else Resistor i ns r c)"
| "Component_simulate ex h timestep (Capacitor i ns cap q v) =
     (if 2 \<le> length ns then
        let new_voltage = fsub (getVoltage h (ns ! 0)) (getVoltage h (ns ! 1));
            current = fdiv (fmul cap (fsub new_voltage v)) timestep
        in Capacitor i ns cap (fadd q (fmul current timestep)) new_voltage
      else Capacitor i ns cap q v)"
| "Component_simulate ex h timestep (Inductor i ns l c v) =
     (if 2 \<le> length ns then
        let voltage_diff = fsub (getVoltage h (ns ! 0)) (getVoltage h (ns ! 1));
            current_ofchange = fdiv (fmul voltage_diff timestep) l
        in Inductor i ns l (fadd c current_ofchange) voltage_diff
      else Inductor i ns l c v)"
| "Component_simulate ex h timestep (Diode i ns fv c) =
     (if 2 \<le> length ns then
        let voltage_diff = fsub (getVoltage h (ns ! 0)) (getVoltage h (ns ! 1))
        in if flt fv voltage_diff then
             Diode i ns fv
               (fmul (double_of_rat (1 / 10 ^ 12))
                  (fsub (ex (fdiv voltage_diff (double_of_rat (26 / 1000)))) one))
           else Diode i ns fv (fneg (double_of_rat (1 / 10 ^ 12)))
      else Diode i ns fv c)"

text \<open>The call \<^verbatim>\<open>component->simulate(timestep)\<close> through a reference.\<close>

definition call_simulate ::
  "(double \<Rightarrow> double) \<Rightarrow> heap \<Rightarrow> comp_ref \<Rightarrow> double \<Rightarrow> heap" where
  "call_simulate ex h this timestep =
     h\<lparr>comp_at := (comp_at h)(this := Component_simulate ex h timestep (comp_at h this))\<rparr>"

subsection \<open>Circuit\<close>

text \<open>
  The two collections are \<^verbatim>\<open>std::map<std::string, ...>\<close>: at most one entry per key,
  iterated in ascending key order. The model is the list of entries in that order.
\<close>

record circuit =
  circuit_name :: string
  circuit_components :: "(string \<times> comp_ref) list"
  circuit_nodes :: "(string \<times> node_ref) list"

text \<open>\<^verbatim>\<open>m[k] = v\<close>: the entry of \<open>k\<close> is overwritten, or inserted at its place.\<close>

fun map_assign :: "string \<Rightarrow> 'a \<Rightarrow> (string \<times> 'a) list \<Rightarrow> (string \<times> 'a) list" where
  "map_assign k v [] = [(k, v)]"
| "map_assign k v ((k', v') # m) =
     (if k = k' then (k, v) # m
      else if k < k' then (k, v) # (k', v') # m
      else (k', v') # map_assign k v m)"

text \<open>\<^verbatim>\<open>m.find(k)\<close>; \<open>None\<close> is \<^verbatim>\<open>m.end()\<close>.\<close>

definition map_find :: "(string \<times> 'a) list \<Rightarrow> string \<Rightarrow> 'a option" where
  "map_find m k = map_of m k"

text \<open>The invariant of a \<^verbatim>\<open>std::map\<close>: keys strictly ascending.\<close>

definition map_ok :: "(string \<times> 'a) list \<Rightarrow> bool" where
  "map_ok m = sorted_wrt (<) (map fst m)"

definition Circuit :: "string \<Rightarrow> circuit" where
  "Circuit name = \<lparr>circuit_name = name, circuit_components = [], circuit_nodes = []\<rparr>"

definition addComponent :: "heap \<Rightarrow> circuit \<Rightarrow> comp_ref option \<Rightarrow> circuit" where
  "addComponent h c component =
     (case component of
        None \<Rightarrow> c
      | Some r \<Rightarrow>
          if id_of (comp_at h r) \<noteq> [] then
            c\<lparr>circuit_components := map_assign (id_of (comp_at h r)) r (circuit_components c)\<rparr>
          else c)"

definition addNode :: "heap \<Rightarrow> circuit \<Rightarrow> node_ref option \<Rightarrow> circuit" where
  "addNode h c node =
     (case node of
        None \<Rightarrow> c
      | Some r \<Rightarrow>
          if node_id (node_at h r) \<noteq> [] then
            c\<lparr>circuit_nodes := map_assign (node_id (node_at h r)) r (circuit_nodes c)\<rparr>
          else c)"

definition getNode :: "circuit \<Rightarrow> string \<Rightarrow> node_ref option" where
  "getNode c i = map_find (circuit_nodes c) i"

definition getComponent :: "circuit \<Rightarrow> string \<Rightarrow> comp_ref option" where
  "getComponent c i = map_find (circuit_components c) i"

definition reset :: "heap \<Rightarrow> circuit \<Rightarrow> heap" where
  "reset h c = foldl (\<lambda>h' (i, n). setVoltage h' n zero) h (circuit_nodes c)"

text \<open>One pass of the inner loop of \<^verbatim>\<open>Circuit::simulate\<close>: every component, in key order.\<close>

definition simulate_pass :: "(double \<Rightarrow> double) \<Rightarrow> circuit \<Rightarrow> double \<Rightarrow> heap \<Rightarrow> heap" where
  "simulate_pass ex c timestep h =
     foldl (\<lambda>h' (i, r). call_simulate ex h' r timestep) h (circuit_components c)"

text \<open>
  The \<^verbatim>\<open>while (time < duration)\<close> loop. It may run forever: the result \<open>None\<close> is a
  call that never returns. Beside the heap the result carries the number of passes made,
  which the source does not compute.
\<close>

partial_function (option) simulate_loop ::
  "(double \<Rightarrow> double) \<Rightarrow> circuit \<Rightarrow> double \<Rightarrow> double \<Rightarrow> double \<Rightarrow> heap \<Rightarrow> nat
     \<Rightarrow> (heap \<times> nat) option" where
  "simulate_loop ex c duration timestep time h passes =
     (if flt time duration then
        simulate_loop ex c duration timestep (fadd time timestep)
          (simulate_pass ex c timestep h) (Suc passes)
      else Some (h, passes))"

definition simulate ::
  "(double \<Rightarrow> double) \<Rightarrow> circuit \<Rightarrow> heap \<Rightarrow> double \<Rightarrow> double \<Rightarrow> (heap \<times> nat) option" where
  "simulate ex c h duration timestep = simulate_loop ex c duration timestep zero h 0"


text \<open>The value of \<open>time\<close> after \<open>n\<close> passes of the loop: 0.0 with the timestep added \<open>n\<close> times.\<close>

definition running_time :: "double \<Rightarrow> nat \<Rightarrow> double" where
  "running_time timestep n = ((\<lambda>time. fadd time timestep) ^^ n) zero"

text \<open>
  The comparison of the unit test, \<^verbatim>\<open>std::abs(actual - expected) < tolerance\<close>, against
  an exact expected number: \<open>x\<close> is finite and differs from \<open>q\<close> by less than \<open>tol\<close>.
\<close>

definition close_to :: "double \<Rightarrow> rat \<Rightarrow> rat \<Rightarrow> bool" where
  "close_to x q tol = (case x of Finite s m \<Rightarrow> abs (fval s m - q) < tol | _ \<Rightarrow> False)"

subsection \<open>The circuit of the unit tests\<close>

text \<open>
  Nodes N1 (at 5 V) and N2 (at 0 V); a resistor R1 of 1000 Ohm and a capacitor C1 of 1 uF
  connected across them; an inductor L1 connected to N1 only; a diode D1 and a capacitor
  C2 connected to nothing. Beside them a second resistor and a second node that carry
  the names R1 and N1 again. Every other reference holds an object with an empty id.
\<close>

definition example_heap :: heap where
  "example_heap =
     (let h0 = \<lparr>node_at = (\<lambda>_. Node [])(0 := Node ''N1'', 1 := Node ''N2'', 2 := Node ''N1''),
                comp_at = (\<lambda>_. new_Diode (double_of_rat (7 / 10)))
                  (0 := setId ''R1'' (new_Resistor (Finite False 1000)),
                   1 := setId ''C1'' (new_Capacitor (double_of_rat (1 / 10 ^ 6))),
                   2 := setId ''L1'' (new_Inductor (double_of_rat (1 / 10 ^ 3))),
                   3 := setId ''D1'' (new_Diode (double_of_rat (7 / 10))),
                   4 := setId ''R1'' (new_Resistor (Finite False 2000)),
                   5 := setId ''C2'' (new_Capacitor (double_of_rat (1 / 10 ^ 6))))\<rparr>;
          h1 = setVoltage h0 0 (Finite False 5);
          h2 = connect (connect h1 0 0) 0 1;
          h3 = connect (connect h2 1 0) 1 1
      in connect h3 2 0)"

definition example_circuit :: circuit where
  "example_circuit =
     (let c0 = Circuit ''RC Circuit'';
          c1 = addNode example_heap (addNode example_heap c0 (Some 0)) (Some 1);
          c2 = addComponent example_heap (addComponent example_heap c1 (Some 0)) (Some 1)
      in addComponent example_heap (addComponent example_heap c2 (Some 2)) (Some 3))"

text \<open>
  No diode of this circuit has two terminals, so simulating it never calls
  \<^verbatim>\<open>std::exp\<close>; this function stands for it there.
\<close>

definition exp_unused :: "double \<Rightarrow> double" where
  "exp_unused x = NaN"

section \<open>Plugins\<close>

subsection \<open>BasePlugin\<close>

text \<open>
  \<^verbatim>\<open>doInitialize\<close> and \<^verbatim>\<open>doCleanup\<close> are pure virtual: each derived class supplies
  them, so they are fields of the object. They act on \<open>derived\<close>: the state of the
  derived class together with whatever else its hooks touch (the hooks of ExamplePlugin
  write a line to \<^verbatim>\<open>std::cout\<close>).
\<close>

record 'd BasePlugin =
  plugin_name :: string
  plugin_version :: string
  plugin_description :: string
  initialized :: bool
  doInitialize :: "'d \<Rightarrow> bool \<times> 'd"
  doCleanup :: "'d \<Rightarrow> 'd"
  derived :: 'd

definition initialize :: "'d BasePlugin \<Rightarrow> bool \<times> 'd BasePlugin" where
  "initialize p =
     (let p' = (if \<not> initialized p then
                  (case doInitialize p (derived p) of
                     (r, d') \<Rightarrow> p\<lparr>initialized := r, derived := d'\<rparr>)
                else p)
      in (initialized p', p'))"

definition cleanup :: "'d BasePlugin \<Rightarrow> 'd BasePlugin" where
  "cleanup p =
     (if initialized p then p\<lparr>derived := doCleanup p (derived p), initialized := False\<rparr>
      else p)"

text \<open>ExamplePlugin; its derived state is the list of lines its hooks have written.\<close>

definition ExamplePlugin :: "string list BasePlugin" where
  "ExamplePlugin =
     \<lparr>plugin_name = ''ExamplePlugin'', plugin_version = ''1.0.0'',
      plugin_description = ''Example plugin with inductor and diode components'',
      initialized = False,
      doInitialize =
        (\<lambda>out. (True, out @ [''ExamplePlugin initialized with components: Inductor, Diode''])),
      doCleanup = (\<lambda>out. out @ [''ExamplePlugin cleaned up'']),
      derived = []\<rparr>"

text \<open>
  A plugin whose setup cannot complete at its first attempt and completes at the next
  (its derived state counts the attempts).
\<close>

definition RetryPlugin :: "nat BasePlugin" where
  "RetryPlugin =
     \<lparr>plugin_name = ''RetryPlugin'', plugin_version = ''0.1'', plugin_description = [],
      initialized = False,
      doInitialize = (\<lambda>attempts. (0 < attempts, Suc attempts)),
      doCleanup = (\<lambda>attempts. attempts),
      derived = 0\<rparr>"

subsection \<open>PluginManager\<close>

text \<open>
  The platform's dynamic loader, as \<^verbatim>\<open>loadPlugin\<close> sees it. \<open>LOAD_LIBRARY\<close> yields a
  handle, or \<open>None\<close> for a null handle. \<open>GET_PROC_ADDRESS\<close> yields the function exported
  under a symbol, or \<open>None\<close>; the factory \<^verbatim>\<open>createPlugin\<close> is given by what a call of
  it returns: a plugin object, or \<open>None\<close> for a null pointer. The loader counts the
  references to each open library: \<open>LOAD_LIBRARY\<close> adds one and \<open>CLOSE_LIBRARY\<close>
  releases one.
\<close>

type_synonym handle = nat

record 'd dynamic_loader =
  LOAD_LIBRARY :: "string \<Rightarrow> handle option"
  GET_PROC_ADDRESS :: "handle \<Rightarrow> string \<Rightarrow> 'd BasePlugin option option"

record 'd PluginManager =
  plugins :: "(string \<times> 'd BasePlugin) list"
  plugin_handles :: "(string \<times> handle) list"
  open_count :: "handle \<Rightarrow> nat"

definition opened :: "'d PluginManager \<Rightarrow> handle \<Rightarrow> 'd PluginManager" where
  "opened s handle = s\<lparr>open_count := (open_count s)(handle := open_count s handle + 1)\<rparr>"

definition CLOSE_LIBRARY :: "'d PluginManager \<Rightarrow> handle \<Rightarrow> 'd PluginManager" where
  "CLOSE_LIBRARY s handle = s\<lparr>open_count := (open_count s)(handle := open_count s handle - 1)\<rparr>"

text \<open>
  The local \<^verbatim>\<open>std::shared_ptr<IPlugin> plugin\<close> of \<^verbatim>\<open>loadPlugin\<close> is destroyed when
  the function returns. On the path where \<open>initialize()\<close> fails it is the only owner of
  the instance, so its destruction deletes the instance: a call of the plugin's virtual
  destructor, which is code of the library. That path closes the library first. If the
  close released the last reference, the library is unloaded when the destructor is
  called: undefined behaviour, and the call does not return. (Where the factory returned
  a null pointer there is nothing to delete, and after a successful load the registry
  owns the instance.)
\<close>

datatype crash = destructor_in_unloaded_library

definition loadPlugin ::
  "'d dynamic_loader \<Rightarrow> 'd PluginManager \<Rightarrow> string \<Rightarrow> crash + bool \<times> 'd PluginManager" where
  "loadPlugin ld s plugin_path =
     (case LOAD_LIBRARY ld plugin_path of
        None \<Rightarrow> Inr (False, s)
      | Some handle \<Rightarrow>
          let s1 = opened s handle in
          (case GET_PROC_ADDRESS ld handle ''createPlugin'' of
             None \<Rightarrow> Inr (False, CLOSE_LIBRARY s1 handle)
           | Some createPlugin \<Rightarrow>
               (case createPlugin of
                  None \<Rightarrow> Inr (False, CLOSE_LIBRARY s1 handle)
                | Some plugin \<Rightarrow>
                    (case initialize plugin of
                       (ok, plugin') \<Rightarrow>
                         if \<not> ok then
                           let s2 = CLOSE_LIBRARY s1 handle in
                           if 0 < open_count s2 handle then Inr (False, s2)
                           else Inl destructor_in_unloaded_library
                         else
                           let plugin_name' = plugin_name plugin' in
                           Inr (True,
                            s1\<lparr>plugins := map_assign plugin_name' plugin' (plugins s1),
                               plugin_handles :=
                                 map_assign plugin_name' handle (plugin_handles s1)\<rparr>)))))"

text \<open>The four ways a load fails, as the specification lists them.\<close>

definition load_fails :: "'d dynamic_loader \<Rightarrow> string \<Rightarrow> bool" where
  "load_fails ld plugin_path =
     (case LOAD_LIBRARY ld plugin_path of
        None \<Rightarrow> True
      | Some handle \<Rightarrow>
          (case GET_PROC_ADDRESS ld handle ''createPlugin'' of
             None \<Rightarrow> True
           | Some None \<Rightarrow> True
           | Some (Some plugin) \<Rightarrow> \<not> fst (initialize plugin)))"

text \<open>
  A loader with three libraries: one that does not export \<^verbatim>\<open>createPlugin\<close>, one
  whose factory returns a null pointer, and one whose factory returns a RetryPlugin. No
  other path can be opened.
\<close>

definition example_loader :: "nat dynamic_loader" where
  "example_loader =
     \<lparr>LOAD_LIBRARY = (\<lambda>path.
        if path = ''plugins/libnosymbol.so'' then Some 1
        else if path = ''plugins/libnull.so'' then Some 2
        else if path = ''plugins/libretry.so'' then Some 3
        else None),
      GET_PROC_ADDRESS = (\<lambda>handle symbol.
        if symbol \<noteq> ''createPlugin'' then None
        else if handle = 2 then Some None
        else if handle = 3 then Some (Some RetryPlugin)
        else None)\<rparr>"

text \<open>The manager as it is constructed: nothing loaded, no library open.\<close>

definition new_PluginManager :: "'d PluginManager" where
  "new_PluginManager = \<lparr>plugins = [], plugin_handles = [], open_count = (\<lambda>_. 0)\<rparr>"

subsection \<open>Plugin discovery\<close>














section \<open>Facts about rounding\<close>

text \<open>\<open>ilog2\<close> is the binary exponent; it is the only integer between the two bounds.\<close>

lemma ilog2_bounds:
  assumes "0 < a"
  shows "2 powi (ilog2 a) \<le> a \<and> a < 2 powi (ilog2 a + 1)"
proof -
  obtain p q where pq: "quotient_of a = (p, q)" by (cases "quotient_of a")
  then have q: "0 < q" and a: "a = of_int p / of_int q"
    by (simp_all add: quotient_of_denom_pos quotient_of_div)
  with assms have p: "0 < p"
    by (simp add: zero_less_divide_iff)
  define bp where "bp = bitlen p"
  define bq where "bq = bitlen q"
  define P :: rat where "P = of_int p"
  define Q :: rat where "Q = of_int q"
  have bp: "2 ^ nat (bp - 1) \<le> p" "p < 2 ^ nat bp" and bq: "2 ^ nat (bq - 1) \<le> q" "q < 2 ^ nat bq"
    using bitlen_bounds [OF p] bitlen_bounds [OF q] by (simp_all add: bp_def bq_def)
  have bp1: "1 \<le> bp" and bq1: "1 \<le> bq"
    using p q bitlen_eq_zero_iff [of p] bitlen_eq_zero_iff [of q] bitlen_nonneg [of p] bitlen_nonneg [of q]
    by (simp_all add: bp_def bq_def)
  have "(of_int (2 ^ nat (bp - 1)) :: rat) \<le> of_int p" "(of_int p :: rat) < of_int (2 ^ nat bp)"
    "(of_int (2 ^ nat (bq - 1)) :: rat) \<le> of_int q" "(of_int q :: rat) < of_int (2 ^ nat bq)"
    using bp bq by (simp_all only: of_int_le_iff of_int_less_iff)
  then have P: "2 powi (bp - 1) \<le> P" "P < 2 powi bp" and Q: "2 powi (bq - 1) \<le> Q" "Q < 2 powi bq"
    using bp1 bq1 by (simp_all add: power_int_nonneg_exp P_def Q_def)
  have pos: "0 < P" "0 < Q"
    using p q by (simp_all add: P_def Q_def)
  have "P / Q < 2 powi bp / 2 powi (bq - 1)"
    using pos P Q by (intro frac_less) simp_all
  then have upper: "a < 2 powi (bp - bq + 1)"
    by (simp add: a P_def Q_def power_int_diff [symmetric] algebra_simps)
  have "2 powi (bp - 1) / 2 powi bq < P / Q"
    using pos P Q by (intro frac_less2) simp_all
  then have lower: "2 powi (bp - bq - 1) < a"
    by (simp add: a P_def Q_def power_int_diff [symmetric] algebra_simps)
  have "ilog2 a = (if 2 powi (bp - bq) \<le> a then bp - bq else bp - bq - 1)"
    by (simp add: ilog2_def pq bp_def bq_def Let_def)
  then show ?thesis
    using upper lower by (auto simp: not_le)
qed

lemma ilog2_unique:
  assumes "0 < a" and "2 powi e \<le> a" and "a < 2 powi (e + 1)"
  shows "ilog2 a = e"
proof (rule ccontr)
  assume ne: "ilog2 a \<noteq> e"
  note b = ilog2_bounds [OF assms(1)]
  show False
  proof (cases "ilog2 a < e")
    case True
    then have "(2::rat) powi (ilog2 a + 1) \<le> 2 powi e"
      by (intro power_int_increasing) simp_all
    with b assms show ?thesis by simp
  next
    case False
    with ne have "(2::rat) powi (e + 1) \<le> 2 powi (ilog2 a)"
      by (intro power_int_increasing) simp_all
    with b assms show ?thesis by simp
  qed
qed

text \<open>
  Rounding to an integer away from a tie and at a tie, and the value of \<open>round_mag\<close> at
  a number whose exponent is known. With these the arithmetic is evaluated on numerals
  by rewriting.
\<close>

lemma round_half_even_near:
  assumes "\<bar>x - of_int n\<bar> < 1 / 2"
  shows "round_half_even x = n"
proof (cases "of_int n \<le> x")
  case True
  with assms have "\<lfloor>x\<rfloor> = n" by (intro floor_unique) auto
  with assms True show ?thesis by (simp add: round_half_even_def)
next
  case False
  with assms have "\<lfloor>x\<rfloor> = n - 1" by (intro floor_unique) auto
  with assms False show ?thesis by (simp add: round_half_even_def)
qed

lemma round_half_even_tie:
  assumes "x = of_int n + 1 / 2"
  shows "round_half_even x = (if even n then n else n + 1)"
proof -
  from assms have "\<lfloor>x\<rfloor> = n" by (intro floor_unique) auto
  with assms show ?thesis by (simp add: round_half_even_def)
qed

lemma round_mag_at:
  assumes "0 < a" and "2 powi e \<le> a" and "a < 2 powi (e + 1)"
  shows "round_mag a =
    (let u = 2 powi (max e (- 1022) - 52);
         m = of_int (round_half_even (a / u)) * u
     in if 2 powi 1024 \<le> m then None else Some m)"
  using ilog2_unique [OF assms] assms(1) by (simp add: round_mag_def)

lemma round_mag_value:
  assumes "0 < a" and "2 powi e \<le> a" and "a < 2 powi (e + 1)"
    and "u = 2 powi (max e (- 1022) - 52)"
    and "\<bar>a / u - of_int n\<bar> < 1 / 2"
    and "of_int n * u < 2 powi 1024"
  shows "round_mag a = Some (of_int n * u)"
  using round_mag_at [OF assms(1-3)] assms(4,6) round_half_even_near [OF assms(5)]
  by (simp add: Let_def)

lemma round_mag_1: "round_mag 1 = Some 1"
  using round_mag_value [of 1 0 "1 / 2 ^ 52" "2 ^ 52"] by simp

lemma round_mag_2: "round_mag 2 = Some 2"
  using round_mag_value [of 2 1 "1 / 2 ^ 51" "2 ^ 52"] by simp

lemma round_mag_5: "round_mag 5 = Some 5"
  using round_mag_value [of 5 2 "1 / 2 ^ 50" "5 * 2 ^ 50"] by simp

lemma round_mag_5_1000: "round_mag (5 / 1000) = Some (5764607523034235 / 2 ^ 60)"
  using round_mag_value [of "5 / 1000" "- 8" "1 / 2 ^ 60" 5764607523034235] by simp

lemma fadd_zero_one: "fadd zero one = one"
  by (simp add: zero_def one_def fval_def double_of_rat_def rnd_def round_mag_1)

lemma fadd_one_one: "fadd one one = Finite False 2"
  by (simp add: zero_def one_def fval_def double_of_rat_def rnd_def round_mag_2)

lemma five_over_thousand:
  "fdiv (fsub (Finite False 5) zero) (Finite False 1000) =
     Finite False (5764607523034235 / 2 ^ 60)"
  using round_mag_5_1000
  by (simp add: zero_def fsub_def fval_def double_of_rat_def rnd_def round_mag_5)

section \<open>Facts about the example circuit\<close>

lemma example_heap_comps:
  "comp_at example_heap 0 = Resistor ''R1'' [0, 1] (Finite False 1000) zero"
  "comp_at example_heap (Suc 0) = Capacitor ''C1'' [0, 1] (double_of_rat (1 / 10 ^ 6)) zero zero"
  "comp_at example_heap 2 = Inductor ''L1'' [0] (double_of_rat (1 / 10 ^ 3)) zero zero"
  "comp_at example_heap 3 = Diode ''D1'' [] (double_of_rat (7 / 10)) zero"
  "comp_at example_heap 4 = Resistor ''R1'' [] (Finite False 2000) zero"
  "comp_at example_heap 5 = Capacitor ''C2'' [] (double_of_rat (1 / 10 ^ 6)) zero zero"
  "comp_at example_heap 6 = Diode [] [] (double_of_rat (7 / 10)) zero"
  by (simp_all add: example_heap_def Let_def connect_def Node_addComponent_def setVoltage_def
      new_Resistor_def new_Capacitor_def new_Inductor_def new_Diode_def)

lemma example_heap_nodes:
  "node_id (node_at example_heap 0) = ''N1''" "node_voltage (node_at example_heap 0) = Finite False 5"
  "node_id (node_at example_heap (Suc 0)) = ''N2''" "node_voltage (node_at example_heap (Suc 0)) = zero"
  "node_id (node_at example_heap 2) = ''N1''" "node_id (node_at example_heap 3) = []"
  by (simp_all add: example_heap_def Let_def connect_def Node_addComponent_def setVoltage_def
      Node_def)

lemma example_circuit_maps:
  "circuit_components example_circuit = [(''C1'', 1), (''D1'', 3), (''L1'', 2), (''R1'', 0)]"
  "circuit_nodes example_circuit = [(''N1'', 0), (''N2'', 1)]"
  by (simp_all add: example_circuit_def Let_def addComponent_def addNode_def Circuit_def
      example_heap_comps example_heap_nodes)

lemma map_ok_example_circuit:
  "map_ok (circuit_components example_circuit)" "map_ok (circuit_nodes example_circuit)"
  by (simp_all add: example_circuit_maps map_ok_def)

section \<open>The stepping loop leaves the nodes alone\<close>

lemma node_at_call_simulate: "node_at (call_simulate ex h this timestep) = node_at h"
  by (simp add: call_simulate_def)

lemma node_at_foldl_call_simulate:
  "node_at (foldl (\<lambda>h' (i, r). call_simulate ex h' r timestep) h xs) = node_at h"
  by (induction xs arbitrary: h) (auto simp: node_at_call_simulate)

lemma node_at_simulate_pass: "node_at (simulate_pass ex c timestep h) = node_at h"
  by (simp add: simulate_pass_def node_at_foldl_call_simulate)

lemma node_at_simulate_loop:
  "simulate_loop ex c duration timestep time h passes = Some y \<Longrightarrow> node_at (fst y) = node_at h"
proof (rule simulate_loop.raw_induct
    [where P = "\<lambda>ex c duration timestep time h passes y. node_at (fst y) = node_at h"])
  fix loop :: "(double \<Rightarrow> double) \<Rightarrow> circuit \<Rightarrow> double \<Rightarrow> double \<Rightarrow> double \<Rightarrow> heap \<Rightarrow> nat
      \<Rightarrow> (heap \<times> nat) option"
    and ex c duration timestep time h passes y
  assume IH: "\<And>ex c duration timestep time h passes y.
    loop ex c duration timestep time h passes = Some y \<Longrightarrow> node_at (fst y) = node_at h"
  assume body: "(if flt time duration
      then loop ex c duration timestep (fadd time timestep)
             (simulate_pass ex c timestep h) (Suc passes)
      else Some (h, passes)) = Some y"
  show "node_at (fst y) = node_at h"
  proof (cases "flt time duration")
    case True
    with body have "loop ex c duration timestep (fadd time timestep)
        (simulate_pass ex c timestep h) (Suc passes) = Some y"
      by simp
    then have "node_at (fst y) = node_at (simulate_pass ex c timestep h)"
      by (rule IH)
    then show ?thesis
      by (simp add: node_at_simulate_pass)
  next
    case False
    with body show ?thesis by auto
  qed
qed (assumption)

lemma simulate_loop_step:
  "flt time duration \<Longrightarrow>
   simulate_loop ex c duration timestep time h passes =
     simulate_loop ex c duration timestep (fadd time timestep)
       (simulate_pass ex c timestep h) (Suc passes)"
  by (subst simulate_loop.simps) simp

lemma simulate_loop_exit:
  "\<not> flt time duration \<Longrightarrow> simulate_loop ex c duration timestep time h passes = Some (h, passes)"
  by (subst simulate_loop.simps) simp

lemma example_simulate_returns:
  "simulate exp_unused example_circuit example_heap (Finite False 2) one =
     Some (simulate_pass exp_unused example_circuit one
             (simulate_pass exp_unused example_circuit one example_heap), 2)"
proof -
  have "flt zero (Finite False 2)" "flt one (Finite False 2)" "\<not> flt (Finite False 2) (Finite False 2)"
    by (simp_all add: zero_def one_def fval_def)
  then show ?thesis
    by (simp add: simulate_def simulate_loop_step simulate_loop_exit fadd_zero_one fadd_one_one)
qed

text \<open>
  Claim C1. \<^verbatim>\<open>Circuit::simulate\<close> never writes to a node: whenever a call
  \<open>simulate(duration, timestep)\<close> returns, the nodes in the heap are the ones before the
  call, so the voltage of every node the circuit owns is what it was. (The components
  write their own state only.)
\<close>

theorem simulate_keeps_node_voltages:
  assumes "simulate ex c h duration timestep = Some (h', passes)"
  shows "node_at h' = node_at h \<and>
    (\<forall>i n. getNode c i = Some n \<longrightarrow> getVoltage h' n = getVoltage h n)"
  using node_at_simulate_loop [of ex c duration timestep zero h 0 "(h', passes)"] assms
  by (simp add: simulate_def getVoltage_def)

theorem simulate_keeps_node_voltages_witness:
  "simulate exp_unused example_circuit example_heap (Finite False 2) one =
     Some (simulate_pass exp_unused example_circuit one
             (simulate_pass exp_unused example_circuit one example_heap), 2) \<and>
   node_at (simulate_pass exp_unused example_circuit one
             (simulate_pass exp_unused example_circuit one example_heap)) = node_at example_heap \<and>
   getNode example_circuit ''N1'' = Some 0 \<and>
   getVoltage (simulate_pass exp_unused example_circuit one
             (simulate_pass exp_unused example_circuit one example_heap)) 0 = Finite False 5"
  using simulate_keeps_node_voltages [OF example_simulate_returns] example_simulate_returns
  by (simp add: getNode_def map_find_def example_circuit_maps getVoltage_def example_heap_nodes)

section \<open>The update laws of the components\<close>

text \<open>
  Claim C2. A resistor of resistance \<open>R\<close> with at least two terminals has, after one
  \<open>simulate(timestep)\<close> with any timestep, the current \<open>(v0 - v1) / R\<close> as the double
  arithmetic computes it from the voltages of its first two nodes. With \<open>R = 1000\<close> and
  node voltages 5.0 and 0.0 the current is within \<open>1e-9\<close> of 0.005.
\<close>

theorem Resistor_update_law:
  assumes "comp_at h this = Resistor i ns R c" and "2 \<le> length ns"
  shows "getCurrentValue (comp_at (call_simulate ex h this timestep) this) =
           fdiv (fsub (getVoltage h (ns ! 0)) (getVoltage h (ns ! 1))) R \<and>
         (R = Finite False 1000 \<and> getVoltage h (ns ! 0) = Finite False 5 \<and>
          getVoltage h (ns ! 1) = zero \<longrightarrow>
            close_to (getCurrentValue (comp_at (call_simulate ex h this timestep) this))
              (5 / 1000) (1 / 10 ^ 9))"
  using assms
  by (simp add: call_simulate_def five_over_thousand close_to_def fval_def)

theorem Resistor_update_law_witness:
  "comp_at example_heap 0 = Resistor ''R1'' [0, 1] (Finite False 1000) zero \<and>
   2 \<le> length [0, 1 :: node_ref] \<and>
   getVoltage example_heap 0 = Finite False 5 \<and> getVoltage example_heap 1 = zero \<and>
   getCurrentValue (comp_at (call_simulate exp_unused example_heap 0 (double_of_rat (1 / 10 ^ 6))) 0) =
     fdiv (fsub (Finite False 5) zero) (Finite False 1000) \<and>
   close_to
     (getCurrentValue (comp_at (call_simulate exp_unused example_heap 0 (double_of_rat (1 / 10 ^ 6))) 0))
     (5 / 1000) (1 / 10 ^ 9)"
  using Resistor_update_law [of example_heap 0 "''R1''" "[0, 1]" "Finite False 1000" zero
      exp_unused "double_of_rat (1 / 10 ^ 6)"]
  by (auto simp: example_heap_comps example_heap_nodes getVoltage_def)

text \<open>
  Claim C3. A capacitor with capacitance \<open>C\<close>, charge \<open>Q\<close> and stored voltage \<open>Vc\<close>
  and at least two terminals: one \<open>simulate(timestep)\<close> computes \<open>Vc_new = v0 - v1\<close>,
  adds \<open>C * (Vc_new - Vc) / timestep * timestep\<close> to the charge and stores \<open>Vc_new\<close>.
  \<open>getCurrentValue\<close> returns the stored voltage, not a current.
\<close>

theorem Capacitor_update_law:
  assumes "comp_at h this = Capacitor i ns C Q Vc" and "2 \<le> length ns"
    and "Vc_new = fsub (getVoltage h (ns ! 0)) (getVoltage h (ns ! 1))"
  shows "comp_at (call_simulate ex h this timestep) this =
           Capacitor i ns C (fadd Q (fmul (fdiv (fmul C (fsub Vc_new Vc)) timestep) timestep)) Vc_new \<and>
         getCurrentValue (comp_at (call_simulate ex h this timestep) this) = Vc_new \<and>
         getCurrentValue (comp_at h this) = Vc"
  using assms
  by (simp add: call_simulate_def Let_def)

theorem Capacitor_update_law_witness:
  "comp_at example_heap 1 =
     Capacitor ''C1'' [0, 1] (double_of_rat (1 / 10 ^ 6)) zero zero \<and>
   2 \<le> length [0, 1 :: node_ref] \<and>
   comp_at (call_simulate exp_unused example_heap 1 (double_of_rat (1 / 10 ^ 6))) 1 =
     Capacitor ''C1'' [0, 1] (double_of_rat (1 / 10 ^ 6))
       (fadd zero
          (fmul (fdiv (fmul (double_of_rat (1 / 10 ^ 6)) (fsub (fsub (Finite False 5) zero) zero))
                   (double_of_rat (1 / 10 ^ 6)))
             (double_of_rat (1 / 10 ^ 6))))
       (fsub (Finite False 5) zero) \<and>
   getCurrentValue (comp_at (call_simulate exp_unused example_heap 1 (double_of_rat (1 / 10 ^ 6))) 1) =
     fsub (Finite False 5) zero \<and>
   getCurrentValue (comp_at example_heap 1) = zero"
  using Capacitor_update_law [of example_heap 1 "''C1''" "[0, 1]" "double_of_rat (1 / 10 ^ 6)"
      zero zero "fsub (Finite False 5) zero" exp_unused "double_of_rat (1 / 10 ^ 6)"]
  by (simp add: example_heap_comps example_heap_nodes getVoltage_def)

text \<open>
  Claim C4. For a component of any of the four classes with fewer than two terminals,
  \<open>simulate(timestep)\<close> does nothing, whatever the timestep: the whole heap, and with
  it the component's current, charge, stored voltage and terminal list, is unchanged.
  (The model has no error to raise there: the function is total.)
\<close>

theorem no_op_below_two_nodes:
  "length (nodes_of (comp_at h this)) < 2 \<Longrightarrow> call_simulate ex h this timestep = h"
  by (cases "comp_at h this") (simp_all add: call_simulate_def fun_upd_idem)

theorem no_op_below_two_nodes_witness:
  "length (nodes_of (comp_at example_heap 2)) < 2 \<and>
   call_simulate exp_unused example_heap 2 one = example_heap \<and>
   length (nodes_of (comp_at example_heap 3)) < 2 \<and>
   call_simulate exp_unused example_heap 3 one = example_heap \<and>
   length (nodes_of (comp_at example_heap 4)) < 2 \<and>
   call_simulate exp_unused example_heap 4 one = example_heap \<and>
   length (nodes_of (comp_at example_heap 5)) < 2 \<and>
   call_simulate exp_unused example_heap 5 one = example_heap"
  using no_op_below_two_nodes [of example_heap 2 exp_unused one]
    no_op_below_two_nodes [of example_heap 3 exp_unused one]
    no_op_below_two_nodes [of example_heap 4 exp_unused one]
    no_op_below_two_nodes [of example_heap 5 exp_unused one]
  by (simp add: example_heap_comps)

section \<open>The collections of the circuit\<close>

lemma map_find_assign:
  "map_find (map_assign k v m) k' = (if k' = k then Some v else map_find m k')"
  by (induction m) (auto simp: map_find_def)

lemma keys_map_assign: "set (map fst (map_assign k v m)) = insert k (set (map fst m))"
  by (induction m) (auto simp: rev_image_eqI split: if_splits)

lemma map_ok_assign: "map_ok m \<Longrightarrow> map_ok (map_assign k v m)"
proof (induction m)
  case Nil
  then show ?case by (simp add: map_ok_def)
next
  case (Cons e m)
  obtain k' v' where e: "e = (k', v')" by (cases e)
  from Cons.prems have ok: "map_ok m" and above: "\<forall>x \<in> set (map fst m). k' < x"
    by (auto simp: map_ok_def e)
  show ?case
  proof (cases "k = k'")
    case True
    with Cons.prems show ?thesis by (simp add: e map_ok_def)
  next
    case False
    show ?thesis
    proof (cases "k < k'")
      case True
      with Cons.prems \<open>k \<noteq> k'\<close> show ?thesis
        by (auto simp: e map_ok_def)
    next
      case False
      with \<open>k \<noteq> k'\<close> have "k' < k" by auto
      moreover have "map_ok (map_assign k v m)" using Cons.IH ok .
      ultimately show ?thesis
        using above \<open>k \<noteq> k'\<close> False keys_map_assign [of k v m]
        by (auto simp: e map_ok_def simp del: set_map)
    qed
  qed
qed

lemma map_ok_distinct: "map_ok m \<Longrightarrow> distinct (map fst m)"
  by (simp add: map_ok_def strict_sorted_iff)

lemma count_key_distinct:
  "distinct (map fst m) \<Longrightarrow> length (filter (\<lambda>e. fst e = k) m) = (if k \<in> set (map fst m) then 1 else 0)"
  by (induction m) (auto simp: image_iff)

lemma entries_map_assign:
  "map_ok m \<Longrightarrow> length (filter (\<lambda>e. fst e = k) (map_assign k v m)) = 1"
proof -
  assume "map_ok m"
  then have "distinct (map fst (map_assign k v m))"
    by (intro map_ok_distinct map_ok_assign)
  then show ?thesis
    by (simp add: count_key_distinct keys_map_assign del: set_map)
qed

text \<open>
  Claim C7. \<open>addComponent\<close> and \<open>addNode\<close> with a null reference or with an object
  whose id is empty leave the circuit as it is. After two objects with the same non-empty
  id are added, the lookup of that id gives the second one, and the collection has
  exactly one entry for the id.
\<close>

theorem add_tolerance_and_last_write_wins:
  "addComponent h c None = c \<and> addNode h c None = c \<and>
   (id_of (comp_at h r) = [] \<longrightarrow> addComponent h c (Some r) = c) \<and>
   (node_id (node_at h n) = [] \<longrightarrow> addNode h c (Some n) = c) \<and>
   (id_of (comp_at h r1) = k \<and> id_of (comp_at h r2) = k \<and> k \<noteq> [] \<and>
    map_ok (circuit_components c) \<longrightarrow>
      getComponent (addComponent h (addComponent h c (Some r1)) (Some r2)) k = Some r2 \<and>
      length (filter (\<lambda>e. fst e = k)
        (circuit_components (addComponent h (addComponent h c (Some r1)) (Some r2)))) = 1) \<and>
   (node_id (node_at h n1) = k' \<and> node_id (node_at h n2) = k' \<and> k' \<noteq> [] \<and>
    map_ok (circuit_nodes c) \<longrightarrow>
      getNode (addNode h (addNode h c (Some n1)) (Some n2)) k' = Some n2 \<and>
      length (filter (\<lambda>e. fst e = k')
        (circuit_nodes (addNode h (addNode h c (Some n1)) (Some n2)))) = 1)"
  by (simp add: addComponent_def addNode_def getComponent_def getNode_def map_find_assign
      entries_map_assign map_ok_assign)

theorem add_tolerance_and_last_write_wins_witness:
  "addComponent example_heap example_circuit None = example_circuit \<and>
   addNode example_heap example_circuit None = example_circuit \<and>
   id_of (comp_at example_heap 6) = [] \<and>
   addComponent example_heap example_circuit (Some 6) = example_circuit \<and>
   node_id (node_at example_heap 3) = [] \<and>
   addNode example_heap example_circuit (Some 3) = example_circuit \<and>
   id_of (comp_at example_heap 0) = ''R1'' \<and> id_of (comp_at example_heap 4) = ''R1'' \<and>
   getComponent (addComponent example_heap (addComponent example_heap example_circuit (Some 0)) (Some 4))
     ''R1'' = Some 4 \<and>
   length (filter (\<lambda>e. fst e = ''R1'')
     (circuit_components
        (addComponent example_heap (addComponent example_heap example_circuit (Some 0)) (Some 4)))) = 1 \<and>
   node_id (node_at example_heap 0) = ''N1'' \<and> node_id (node_at example_heap 2) = ''N1'' \<and>
   getNode (addNode example_heap (addNode example_heap example_circuit (Some 0)) (Some 2)) ''N1'' =
     Some 2 \<and>
   length (filter (\<lambda>e. fst e = ''N1'')
     (circuit_nodes (addNode example_heap (addNode example_heap example_circuit (Some 0)) (Some 2)))) = 1"
  using add_tolerance_and_last_write_wins [of example_heap example_circuit 6 3 0 "''R1''" 4 0 "''N1''" 2]
  by (simp add: example_heap_comps example_heap_nodes map_ok_example_circuit)

section \<open>Reset\<close>

lemma comp_at_setVoltage: "comp_at (setVoltage h n v) = comp_at h"
  by (simp add: setVoltage_def)

lemma getVoltage_setVoltage:
  "getVoltage (setVoltage h n v) r = (if r = n then v else getVoltage h r)"
  by (simp add: setVoltage_def getVoltage_def)

lemma comp_at_reset_fold:
  "comp_at (foldl (\<lambda>h' (i, n). setVoltage h' n zero) h ns) = comp_at h"
  by (induction ns arbitrary: h) (auto simp: comp_at_setVoltage)

lemma getVoltage_reset_fold:
  "getVoltage (foldl (\<lambda>h' (i, n). setVoltage h' n zero) h ns) r =
     (if r \<in> snd ` set ns then zero else getVoltage h r)"
proof (induction ns arbitrary: h)
  case Nil
  then show ?case by simp
next
  case (Cons e ns)
  obtain i n where e: "e = (i, n)" by (cases e)
  show ?case
    by (simp add: e Cons.IH getVoltage_setVoltage)
qed

text \<open>
  Claim C8. \<open>reset\<close> sets the voltage of every node the circuit owns to 0.0 and leaves
  every component as it is, so \<open>getCurrentValue\<close> of each owned component is the same
  after the reset as before.
\<close>

theorem reset_asymmetry:
  "(\<forall>(i, n) \<in> set (circuit_nodes c). getVoltage (reset h c) n = zero) \<and>
   comp_at (reset h c) = comp_at h \<and>
   (\<forall>i r. getComponent c i = Some r \<longrightarrow>
      getCurrentValue (comp_at (reset h c) r) = getCurrentValue (comp_at h r))"
proof (intro conjI)
  show "\<forall>(i, n) \<in> set (circuit_nodes c). getVoltage (reset h c) n = zero"
    by (force simp: reset_def getVoltage_reset_fold)
  show "comp_at (reset h c) = comp_at h"
    by (simp add: reset_def comp_at_reset_fold)
  then show "\<forall>i r. getComponent c i = Some r \<longrightarrow>
      getCurrentValue (comp_at (reset h c) r) = getCurrentValue (comp_at h r)"
    by simp
qed

theorem reset_asymmetry_witness:
  "(''N1'', 0) \<in> set (circuit_nodes example_circuit) \<and>
   getVoltage example_heap 0 = Finite False 5 \<and>
   getVoltage (reset example_heap example_circuit) 0 = zero \<and>
   getComponent example_circuit ''R1'' = Some 0 \<and>
   getCurrentValue (comp_at (reset example_heap example_circuit) 0) =
     getCurrentValue (comp_at example_heap 0)"
  using reset_asymmetry [of example_circuit example_heap]
  by (auto simp: example_circuit_maps getComponent_def map_find_def getVoltage_def
      example_heap_nodes)

section \<open>The lifecycle of a plugin\<close>

lemma initialize_when_initialized: "initialized p \<Longrightarrow> initialize p = (True, p)"
  by (simp add: initialize_def)

lemma initialize_result: "initialized (snd (initialize p)) = fst (initialize p)"
  by (simp add: initialize_def Let_def)

text \<open>
  Claim C5 says that a second \<open>initialize()\<close> before \<open>cleanup()\<close> is a no-op that
  returns the result of the first one. It is not when the first one failed: the
  RetryPlugin returns false from its first \<open>initialize()\<close> and true from its second,
  and each call runs \<open>doInitialize\<close> (the attempts are counted).
\<close>

theorem initialize_twice_RetryPlugin:
  "fst (initialize RetryPlugin) = False \<and>
   fst (initialize (snd (initialize RetryPlugin))) = True \<and>
   derived (snd (initialize RetryPlugin)) = 1 \<and>
   derived (snd (initialize (snd (initialize RetryPlugin)))) = 2"
  by (simp add: initialize_def RetryPlugin_def Let_def)

text \<open>
  Claim C5, as the code has it. After an \<open>initialize()\<close> that succeeded, a repeated
  \<open>initialize()\<close> changes nothing and returns true. After one that failed, a repeated
  \<open>initialize()\<close> runs \<open>doInitialize\<close> again and returns what that attempt
  returns: only success is remembered.
\<close>

theorem initialize_repeated:
  "(fst (initialize p) \<longrightarrow>
      initialize (snd (initialize p)) = (True, snd (initialize p))) \<and>
   (\<not> fst (initialize p) \<longrightarrow>
      initialize (snd (initialize p)) =
        (case doInitialize p (derived (snd (initialize p))) of
           (r, d') \<Rightarrow> (r, (snd (initialize p))\<lparr>initialized := r, derived := d'\<rparr>)))"
  by (auto simp: initialize_def Let_def split: prod.splits)

theorem initialize_repeated_witness:
  "fst (initialize ExamplePlugin) \<and>
   initialize (snd (initialize ExamplePlugin)) = (True, snd (initialize ExamplePlugin)) \<and>
   \<not> fst (initialize RetryPlugin) \<and>
   initialize (snd (initialize RetryPlugin)) =
     (case doInitialize RetryPlugin (derived (snd (initialize RetryPlugin))) of
        (r, d') \<Rightarrow> (r, (snd (initialize RetryPlugin))\<lparr>initialized := r, derived := d'\<rparr>))"
  using initialize_repeated [of ExamplePlugin] initialize_repeated [of RetryPlugin]
  by (simp add: initialize_def ExamplePlugin_def RetryPlugin_def Let_def)

section \<open>Loading a plugin\<close>

lemma CLOSE_LIBRARY_opened: "CLOSE_LIBRARY (opened s handle) handle = s"
  by (simp add: CLOSE_LIBRARY_def opened_def)

text \<open>
  Three of the four ways a load can fail end before an instance exists. In these
  \<open>loadPlugin\<close> returns false and leaves the manager as it was: the registry, the handle
  map, and the loader's count of open references to each library, so a library that was
  opened has been closed again.
\<close>

lemma loadPlugin_fails_without_instance:
  assumes "LOAD_LIBRARY ld plugin_path = None \<or>
    (\<exists>handle. LOAD_LIBRARY ld plugin_path = Some handle \<and>
       (GET_PROC_ADDRESS ld handle ''createPlugin'' = None \<or>
        GET_PROC_ADDRESS ld handle ''createPlugin'' = Some None))"
  shows "loadPlugin ld s plugin_path = Inr (False, s)"
  using assms by (auto simp: loadPlugin_def CLOSE_LIBRARY_opened Let_def)

text \<open>
  When \<open>initialize()\<close> of the instance fails, the call returns false with the manager
  as it was only if the library was open before the call; otherwise it ends in the
  destructor call.
\<close>

lemma loadPlugin_initialize_fails:
  assumes "LOAD_LIBRARY ld plugin_path = Some handle"
    and "GET_PROC_ADDRESS ld handle ''createPlugin'' = Some (Some plugin)"
    and "\<not> fst (initialize plugin)"
  shows "loadPlugin ld s plugin_path =
    (if 0 < open_count s handle then Inr (False, s) else Inl destructor_in_unloaded_library)"
proof -
  have "open_count (CLOSE_LIBRARY (opened s handle) handle) handle = open_count s handle"
    by (simp add: CLOSE_LIBRARY_opened)
  with assms show ?thesis
    by (auto simp: loadPlugin_def CLOSE_LIBRARY_opened Let_def split: prod.splits)
qed

lemma loadPlugin_success:
  "\<not> load_fails ld plugin_path \<Longrightarrow> \<exists>s'. loadPlugin ld s plugin_path = Inr (True, s')"
  by (auto simp: load_fails_def loadPlugin_def Let_def split: option.splits prod.splits)

lemma loadPlugin_fails_without_instance_examples:
  "loadPlugin example_loader new_PluginManager ''plugins/libmissing.so'' =
     Inr (False, new_PluginManager)"
  "loadPlugin example_loader new_PluginManager ''plugins/libnosymbol.so'' =
     Inr (False, new_PluginManager)"
  "loadPlugin example_loader new_PluginManager ''plugins/libnull.so'' =
     Inr (False, new_PluginManager)"
  by (rule loadPlugin_fails_without_instance, simp add: example_loader_def)+

text \<open>
  Claim C9 says that in each of the four ways a load can fail \<open>loadPlugin\<close> returns
  false, with the registry and the handle map as before and the opened handle released.
  The code does not do that when \<open>initialize()\<close> of the instance fails and the library
  was not open before: it closes the library and then destroys the instance, and the call
  ends in the destructor instead of returning false. (\<open>unloadPlugin\<close> does the two
  steps in the other order.) The library of the RetryPlugin, loaded by a new manager:
\<close>

theorem loadPlugin_initialize_fails_crashes:
  "load_fails example_loader ''plugins/libretry.so'' \<and>
   open_count (new_PluginManager :: nat PluginManager) 3 = 0 \<and>
   loadPlugin example_loader new_PluginManager ''plugins/libretry.so'' =
     Inl destructor_in_unloaded_library"
  by (simp add: load_fails_def loadPlugin_def example_loader_def new_PluginManager_def
      initialize_def RetryPlugin_def CLOSE_LIBRARY_def opened_def Let_def)

section \<open>Discovery\<close>









section \<open>Termination of the stepping loop\<close>

lemma round_half_even_nonneg: "0 \<le> x \<Longrightarrow> 0 \<le> round_half_even x"
  by (simp add: round_half_even_def Let_def)

lemma round_half_even_le:
  assumes "x \<le> of_int N"
  shows "round_half_even x \<le> N"
proof (cases "x = of_int N")
  case True
  then show ?thesis by (simp add: round_half_even_def)
next
  case False
  with assms have "x < of_int N" by simp
  then have "\<lfloor>x\<rfloor> < N" by (simp add: floor_less_iff)
  moreover have "\<lfloor>x\<rfloor> \<le> N" using assms by (simp add: floor_le_iff le_less_trans)
  ultimately show ?thesis by (simp add: round_half_even_def Let_def)
qed

lemma round_mag_nonneg:
  assumes "0 \<le> a" and "round_mag a = Some m"
  shows "0 \<le> m"
proof (cases "a = 0")
  case True
  with assms show ?thesis by (simp add: round_mag_def)
next
  case False
  define u :: rat where "u = 2 powi (max (ilog2 a) (- 1022) - 52)"
  have u: "0 < u" by (simp add: u_def)
  with assms(1) have "0 \<le> a / u" by simp
  then have "0 \<le> round_half_even (a / u)" by (rule round_half_even_nonneg)
  moreover from assms(2) False have "m = of_int (round_half_even (a / u)) * u"
    by (simp add: round_mag_def Let_def u_def split: if_splits)
  ultimately show ?thesis using u by simp
qed

lemma fle_zero_double_of_rat: "q < 0 \<Longrightarrow> fle (double_of_rat q) zero"
  using round_mag_nonneg [of "\<bar>q\<bar>"]
  by (auto simp: double_of_rat_def rnd_def zero_def fval_def split: option.splits)

lemma fle_zero_fadd:
  assumes "fle x zero" and "fle t zero"
  shows "fle (fadd x t) zero"
proof (cases x)
  case NaN
  with assms show ?thesis by (simp add: zero_def)
next
  case (Infinity s)
  with assms show ?thesis by (cases t) (simp_all add: zero_def)
next
  case x: (Finite s a)
  show ?thesis
  proof (cases t)
    case NaN
    with assms show ?thesis by (simp add: zero_def)
  next
    case (Infinity s')
    with assms x show ?thesis by (simp add: zero_def)
  next
    case t: (Finite s' b)
    from assms x t have "fval s a + fval s' b \<le> 0"
      by (simp add: zero_def fval_def split: if_splits)
    then consider "fval s a + fval s' b = 0" | "fval s a + fval s' b < 0"
      by linarith
    then show ?thesis
    proof cases
      case 1
      then show ?thesis by (simp add: x t zero_def fval_def)
    next
      case 2
      then show ?thesis by (simp add: x t fle_zero_double_of_rat)
    qed
  qed
qed

lemma fle_zero_flt: "fle x zero \<Longrightarrow> flt zero d \<Longrightarrow> flt x d"
  by (cases x; cases d) (auto simp: zero_def fval_def split: if_splits)

lemma not_flt_zero: "(\<not> flt zero d) = (fle d zero \<or> d = NaN)"
  by (cases d) (auto simp: zero_def fval_def)

lemma simulate_loop_diverges:
  assumes inv: "I time"
    and step: "\<And>t. I t \<Longrightarrow> flt t duration \<and> I (fadd t timestep)"
  shows "simulate_loop ex c duration timestep time h passes = None"
proof (rule ccontr)
  assume "simulate_loop ex c duration timestep time h passes \<noteq> None"
  then obtain y where y: "simulate_loop ex c duration timestep time h passes = Some y"
    by auto
  have "\<not> (I time \<and> duration = duration \<and> timestep = timestep)"
  proof (rule simulate_loop.raw_induct
      [where P = "\<lambda>ex c d ts t h passes y. \<not> (I t \<and> d = duration \<and> ts = timestep)", OF _ y])
    fix loop :: "(double \<Rightarrow> double) \<Rightarrow> circuit \<Rightarrow> double \<Rightarrow> double \<Rightarrow> double \<Rightarrow> heap \<Rightarrow> nat
        \<Rightarrow> (heap \<times> nat) option"
      and ex c d ts t h passes y
    assume IH: "\<And>ex c d ts t h passes y.
      loop ex c d ts t h passes = Some y \<Longrightarrow> \<not> (I t \<and> d = duration \<and> ts = timestep)"
    assume body: "(if flt t d
        then loop ex c d ts (fadd t ts) (simulate_pass ex c ts h) (Suc passes)
        else Some (h, passes)) = Some y"
    show "\<not> (I t \<and> d = duration \<and> ts = timestep)"
    proof
      assume a: "I t \<and> d = duration \<and> ts = timestep"
      with step [of t] have "flt t d" and next_inv: "I (fadd t ts)" by simp_all
      with body have "loop ex c d ts (fadd t ts) (simulate_pass ex c ts h) (Suc passes) = Some y"
        by simp
      from IH [OF this] a next_inv show False by simp
    qed
  qed
  with inv show False by simp
qed

lemma simulate_not_started:
  "\<not> flt zero duration \<Longrightarrow> simulate ex c h duration timestep = Some (h, 0)"
  by (simp add: simulate_def simulate_loop_exit)

lemma simulate_nonpositive_timestep:
  assumes "flt zero duration" and "fle timestep zero"
  shows "simulate ex c h duration timestep = None"
  unfolding simulate_def
proof (rule simulate_loop_diverges [where I = "\<lambda>t. fle t zero"])
  show "fle zero zero" by (simp add: zero_def)
next
  fix t assume "fle t zero"
  with assms show "flt t duration \<and> fle (fadd t timestep) zero"
    by (simp add: fle_zero_flt fle_zero_fadd)
qed

lemma simulate_NaN_timestep:
  assumes "flt zero duration"
  shows "simulate ex c h duration NaN = Some (simulate_pass ex c NaN h, 1)"
proof -
  have "fadd zero NaN = NaN" by (simp add: zero_def)
  with assms show ?thesis
    by (simp add: simulate_def simulate_loop_step simulate_loop_exit)
qed

text \<open>
  The general rule: the loop returns after \<open>n\<close> passes when the time after \<open>n\<close>
  additions is the first that is not below the duration, and never returns when no such
  time comes.
\<close>

lemma simulate_loop_returns:
  assumes "\<forall>k<n. flt (((\<lambda>t. fadd t timestep) ^^ k) time) duration"
    and "\<not> flt (((\<lambda>t. fadd t timestep) ^^ n) time) duration"
  shows "simulate_loop ex c duration timestep time h passes =
    Some ((simulate_pass ex c timestep ^^ n) h, passes + n)"
  using assms
proof (induction n arbitrary: time h passes)
  case 0
  then show ?case by (simp add: simulate_loop_exit)
next
  case (Suc n)
  from Suc.prems(1) have now: "flt time duration" by auto
  have "\<forall>k<n. flt (((\<lambda>t. fadd t timestep) ^^ k) (fadd time timestep)) duration"
  proof (intro allI impI)
    fix k assume "k < n"
    with Suc.prems(1) have "flt (((\<lambda>t. fadd t timestep) ^^ Suc k) time) duration" by auto
    then show "flt (((\<lambda>t. fadd t timestep) ^^ k) (fadd time timestep)) duration"
      using funpow_swap1 [of "\<lambda>t. fadd t timestep" k time] by simp
  qed
  moreover from Suc.prems(2)
  have "\<not> flt (((\<lambda>t. fadd t timestep) ^^ n) (fadd time timestep)) duration"
    using funpow_swap1 [of "\<lambda>t. fadd t timestep" n time] by simp
  ultimately have "simulate_loop ex c duration timestep (fadd time timestep)
      (simulate_pass ex c timestep h) (Suc passes) =
    Some ((simulate_pass ex c timestep ^^ n) (simulate_pass ex c timestep h), Suc passes + n)"
    by (rule Suc.IH)
  with now show ?case
    by (simp add: simulate_loop_step funpow_swap1)
qed

lemma simulate_loop_never_reaches:
  assumes "\<forall>n. flt (((\<lambda>t. fadd t timestep) ^^ n) time) duration"
  shows "simulate_loop ex c duration timestep time h passes = None"
proof (rule simulate_loop_diverges
    [where I = "\<lambda>t. \<forall>n. flt (((\<lambda>t. fadd t timestep) ^^ n) t) duration"])
  show "\<forall>n. flt (((\<lambda>t. fadd t timestep) ^^ n) time) duration" by (rule assms)
next
  fix t
  assume inv: "\<forall>n. flt (((\<lambda>t. fadd t timestep) ^^ n) t) duration"
  have "flt t duration" using inv [rule_format, of 0] by simp
  moreover have "flt (((\<lambda>t. fadd t timestep) ^^ n) (fadd t timestep)) duration" for n
    using inv [rule_format, of "Suc n"] funpow_swap1 [of "\<lambda>t. fadd t timestep" n t] by simp
  ultimately show "flt t duration \<and>
      (\<forall>n. flt (((\<lambda>t. fadd t timestep) ^^ n) (fadd t timestep)) duration)"
    by simp
qed

lemma simulate_returns_at_first_time_reached:
  assumes "\<forall>k<n. flt (running_time timestep k) duration"
    and "\<not> flt (running_time timestep n) duration"
  shows "simulate ex c h duration timestep = Some ((simulate_pass ex c timestep ^^ n) h, n)"
  using simulate_loop_returns [of n timestep zero duration ex c h 0] assms
  by (simp add: simulate_def running_time_def)

lemma simulate_never_returns_when_time_stays_below:
  assumes "\<forall>n. flt (running_time timestep n) duration"
  shows "simulate ex c h duration timestep = None"
  using simulate_loop_never_reaches [of timestep zero duration ex c h 0] assms
  by (simp add: simulate_def running_time_def)

lemma running_time_one:
  "running_time one 0 = zero" "running_time one (Suc 0) = one"
  "running_time one 2 = Finite False 2"
  by (simp_all add: running_time_def numeral_2_eq_2 fadd_zero_one fadd_one_one)

lemma flt_two:
  "flt zero (Finite False 2)" "flt one (Finite False 2)" "\<not> flt (Finite False 2) (Finite False 2)"
  by (simp_all add: zero_def one_def fval_def)

lemma running_time_zero: "running_time zero n = zero"
  by (induction n) (simp_all add: running_time_def zero_def fval_def)

text \<open>
  A positive timestep does not make the loop end. Adding 1.0 to a double of up to
  \<open>2 ^ 53\<close> gives a double of up to \<open>2 ^ 53\<close> again: \<open>2 ^ 53 + 1\<close> is a tie and rounds
  back to \<open>2 ^ 53\<close>. So with the timestep 1.0 the time never passes \<open>2 ^ 53\<close>, and a
  longer duration is never reached.
\<close>

lemma round_mag_below_2_53:
  assumes "1 \<le> a" and "a \<le> 2 ^ 53 + 1"
  shows "\<exists>m. round_mag a = Some m \<and> m \<le> 2 ^ 53"
proof -
  define e where "e = ilog2 a"
  from assms have pos: "0 < a" by simp
  from ilog2_bounds [OF pos] have lo: "2 powi e \<le> a" and hi: "a < 2 powi (e + 1)"
    by (simp_all add: e_def)
  have e0: "0 \<le> e"
  proof (rule ccontr)
    assume "\<not> 0 \<le> e"
    then have "(2::rat) powi (e + 1) \<le> 2 powi 0"
      by (intro power_int_increasing) simp_all
    with hi assms show False by simp
  qed
  have e53: "e \<le> 53"
  proof (rule ccontr)
    assume "\<not> e \<le> 53"
    then have "(2::rat) powi 54 \<le> 2 powi e"
      by (intro power_int_increasing) simp_all
    with lo assms show False by simp
  qed
  define u :: rat where "u = 2 powi (e - 52)"
  have u: "0 < u" by (simp add: u_def)
  define r where "r = round_half_even (a / u)"
  have r53: "of_int r * u \<le> 2 ^ 53"
  proof (cases "e \<le> 52")
    case True
    then have "u \<le> 2 powi 0"
      unfolding u_def by (intro power_int_increasing) simp_all
    then have u1: "u \<le> 1" by simp
    have "a / u < 2 powi (e + 1) / u"
      using hi u by (simp add: divide_strict_right_mono)
    also have "2 powi (e + 1) / u = 2 powi 53"
      by (simp add: u_def power_int_diff [symmetric])
    finally have "a / u \<le> of_int (2 ^ 53)" by simp
    then have "r \<le> 2 ^ 53" unfolding r_def by (rule round_half_even_le)
    then have "(of_int r :: rat) \<le> 2 ^ 53"
      by (metis of_int_le_iff of_int_numeral of_int_power)
    moreover have "0 \<le> r"
      unfolding r_def using pos u by (intro round_half_even_nonneg) simp
    ultimately have "of_int r * u \<le> 2 ^ 53 * 1"
      using u u1 by (intro mult_mono) simp_all
    then show ?thesis by simp
  next
    case False
    with e53 have e: "e = 53" by simp
    then have u2: "u = 2" by (simp add: u_def)
    from lo e have lo': "2 ^ 53 \<le> a" by simp
    have "r = 2 ^ 52"
    proof (cases "a = 2 ^ 53 + 1")
      case True
      then have "a / u = of_int (2 ^ 52) + 1 / 2" by (simp add: u2)
      from round_half_even_tie [OF this] show ?thesis by (simp add: r_def)
    next
      case False
      with assms lo' have "\<bar>a / u - of_int (2 ^ 52)\<bar> < 1 / 2"
        by (simp add: u2 abs_less_iff)
      from round_half_even_near [OF this] show ?thesis by (simp add: r_def)
    qed
    then show ?thesis by (simp add: u2)
  qed
  then have "\<not> 2 powi 1024 \<le> of_int r * u"
    by simp
  with round_mag_at [OF pos lo hi] e0 have "round_mag a = Some (of_int r * u)"
    by (simp add: Let_def u_def r_def max_def)
  with r53 show ?thesis by simp
qed

lemma simulate_absorbed_timestep:
  "simulate ex c h (Finite False (2 ^ 60)) one = None"
  unfolding simulate_def
proof (rule simulate_loop_diverges
    [where I = "\<lambda>t. \<exists>m. t = Finite False m \<and> 0 \<le> m \<and> m \<le> 2 ^ 53"])
  show "\<exists>m. zero = Finite False m \<and> 0 \<le> m \<and> m \<le> 2 ^ 53"
    by (simp add: zero_def)
next
  fix t
  assume "\<exists>m. t = Finite False m \<and> 0 \<le> m \<and> m \<le> 2 ^ 53"
  then obtain m where t: "t = Finite False m" and m: "0 \<le> m" "m \<le> 2 ^ 53"
    by auto
  from m round_mag_below_2_53 [of "m + 1"]
  obtain m' where m': "round_mag (m + 1) = Some m'" "m' \<le> 2 ^ 53"
    by auto
  from m m'(1) round_mag_nonneg [of "m + 1" m'] have "0 \<le> m'" by simp
  with m m' have "fadd t one = Finite False m'"
    by (simp add: t one_def fval_def double_of_rat_def rnd_def)
  moreover from m have "flt t (Finite False (2 ^ 60))"
    by (simp add: t fval_def)
  ultimately show "flt t (Finite False (2 ^ 60)) \<and>
      (\<exists>m. fadd t one = Finite False m \<and> 0 \<le> m \<and> m \<le> 2 ^ 53)"
    using \<open>0 \<le> m'\<close> m'(2) by simp
qed

lemma round_mag_2_60: "round_mag (2 ^ 60) = Some (2 ^ 60)"
  using round_mag_value [of "2 ^ 60" 60 "2 ^ 8" "2 ^ 52"] by simp

lemma doubles_of_the_examples:
  "is_double one" "is_double (Finite False (2 ^ 60))"
  using round_mag_2_60 by (simp_all add: one_def round_mag_1)

text \<open>
  Claim C10 says that \<open>simulate\<close> returns if and only if the duration is at most zero
  or the timestep is positive. Both directions fail. With the duration 1.0 and a NaN
  timestep neither condition holds, and the call returns after one pass: the time becomes
  NaN, and \<open>NaN < duration\<close> is false. With the duration \<open>2 ^ 60\<close> and the timestep 1.0
  the timestep is positive, and the call never returns.
\<close>

theorem simulate_termination_fails:
  "simulate exp_unused example_circuit example_heap one NaN =
     Some (simulate_pass exp_unused example_circuit NaN example_heap, 1) \<and>
   \<not> (fle one zero \<or> flt zero NaN) \<and>
   simulate exp_unused example_circuit example_heap (Finite False (2 ^ 60)) one = None \<and>
   flt zero one \<and> is_double one \<and> is_double (Finite False (2 ^ 60))"
  using simulate_NaN_timestep [of one exp_unused example_circuit example_heap]
    simulate_absorbed_timestep [of exp_unused example_circuit example_heap]
    doubles_of_the_examples
  by (simp add: zero_def one_def fval_def)

text \<open>
  Claim C10, as the code has it. The call returns after \<open>n\<close> passes when the time after
  \<open>n\<close> additions of the timestep is the first that is not below the duration, and
  never returns when the time stays below the duration for ever. So: when the duration is
  at most zero, or a NaN, the call returns at once with no pass made. When the duration
  is positive and the timestep is at most zero (a number, not a NaN), the call never
  returns. When the duration is positive and the timestep is a NaN, the call returns
  after exactly one pass. With a positive timestep the call returns once the time has
  grown to the duration, but the time can stop growing before: with the duration
  \<open>2 ^ 60\<close> and the timestep 1.0 the call never returns.
\<close>

theorem simulate_termination:
  "((\<forall>k<n. flt (running_time timestep k) duration) \<and> \<not> flt (running_time timestep n) duration \<longrightarrow>
      simulate ex c h duration timestep = Some ((simulate_pass ex c timestep ^^ n) h, n)) \<and>
   ((\<forall>n. flt (running_time timestep n) duration) \<longrightarrow>
      simulate ex c h duration timestep = None) \<and>
   (fle duration zero \<or> duration = NaN \<longrightarrow>
      simulate ex c h duration timestep = Some (h, 0)) \<and>
   (flt zero duration \<and> fle timestep zero \<longrightarrow>
      simulate ex c h duration timestep = None) \<and>
   (flt zero duration \<and> timestep = NaN \<longrightarrow>
      simulate ex c h duration timestep = Some (simulate_pass ex c timestep h, 1)) \<and>
   simulate ex c h (Finite False (2 ^ 60)) one = None"
  using simulate_returns_at_first_time_reached [of n timestep duration ex c h]
    simulate_never_returns_when_time_stays_below [of timestep duration ex c h]
    simulate_not_started [of duration ex c h timestep]
    simulate_nonpositive_timestep [of duration timestep ex c h]
    simulate_NaN_timestep [of duration ex c h]
    simulate_absorbed_timestep [of ex c h]
  by (auto simp: not_flt_zero)

theorem simulate_termination_witness:
  "flt (running_time one 0) (Finite False 2) \<and> flt (running_time one 1) (Finite False 2) \<and>
   \<not> flt (running_time one 2) (Finite False 2) \<and>
   simulate exp_unused example_circuit example_heap (Finite False 2) one =
     Some ((simulate_pass exp_unused example_circuit one ^^ 2) example_heap, 2) \<and>
   (\<forall>n. flt (running_time zero n) one) \<and>
   simulate exp_unused example_circuit example_heap one zero = None \<and>
   fle (fneg one) zero \<and>
   simulate exp_unused example_circuit example_heap (fneg one) one = Some (example_heap, 0) \<and>
   simulate exp_unused example_circuit example_heap NaN one = Some (example_heap, 0) \<and>
   flt zero one \<and>
   simulate exp_unused example_circuit example_heap one (fneg one) = None \<and>
   simulate exp_unused example_circuit example_heap one NaN =
     Some (simulate_pass exp_unused example_circuit NaN example_heap, 1)"
proof -
  have b0: "flt (running_time one 0) (Finite False 2)"
    and b1: "flt (running_time one 1) (Finite False 2)"
    and reached: "\<not> flt (running_time one 2) (Finite False 2)"
    by (simp_all add: running_time_one flt_two)
  then have below: "\<forall>k<2. flt (running_time one k) (Finite False 2)"
    by (auto simp: less_Suc_eq numeral_2_eq_2)
  from below reached
    simulate_termination [of 2 one "Finite False 2" exp_unused example_circuit example_heap]
  have r1: "simulate exp_unused example_circuit example_heap (Finite False 2) one =
      Some ((simulate_pass exp_unused example_circuit one ^^ 2) example_heap, 2)"
    by blast
  have "flt zero one"
    by (simp add: zero_def one_def fval_def)
  then have stays: "\<forall>n. flt (running_time zero n) one"
    by (simp add: running_time_zero)
  with simulate_termination [of 0 zero one exp_unused example_circuit example_heap]
  have r2: "simulate exp_unused example_circuit example_heap one zero = None"
    by blast
  have signs: "fle (fneg one) zero" "flt zero one"
    by (simp_all add: zero_def one_def fval_def)
  with simulate_termination [of 0 one "fneg one" exp_unused example_circuit example_heap]
  have r3: "simulate exp_unused example_circuit example_heap (fneg one) one =
      Some (example_heap, 0)"
    by blast
  from simulate_termination [of 0 one NaN exp_unused example_circuit example_heap]
  have r4: "simulate exp_unused example_circuit example_heap NaN one = Some (example_heap, 0)"
    by blast
  from signs simulate_termination [of 0 "fneg one" one exp_unused example_circuit example_heap]
  have r5: "simulate exp_unused example_circuit example_heap one (fneg one) = None"
    by blast
  from signs simulate_termination [of 0 NaN one exp_unused example_circuit example_heap]
  have r6: "simulate exp_unused example_circuit example_heap one NaN =
      Some (simulate_pass exp_unused example_circuit NaN example_heap, 1)"
    by blast
  from b0 b1 reached r1 stays r2 signs r3 r4 r5 r6 show ?thesis
    by simp
qed

end
